theory Spec2Isabelle
  imports Main
begin

section \<open>Python values, exceptions and dictionaries\<close>

text \<open>
  The program (\<^verbatim>\<open>src/main.py\<close>) is a pipeline over third-party libraries. Every
  exception class that one of its handlers names is a constructor here, and so are the
  two that its own expressions can raise (\<^verbatim>\<open>TypeError\<close> from \<^verbatim>\<open>None[0]\<close> and
  \<^verbatim>\<open>float(None)\<close>, \<^verbatim>\<open>ValueError\<close> from \<^verbatim>\<open>float\<close>); \<open>OtherException\<close> stands for any
  other subclass of \<^verbatim>\<open>Exception\<close>. An exception value carries its \<^verbatim>\<open>str()\<close>
  rendering, which the outermost handler prints.
\<close>

datatype exn_kind =
    NumberParseException
  | UnknownTimeZoneError
  | KeyError
  | IndexError
  | TypeError
  | ValueError
  | GeocoderTimedOut
  | GeocoderUnavailable
  | OtherException

datatype exn = Exn (kind: exn_kind) (str_exn: string)

text \<open>The values a record entry can hold: a string, or \<^verbatim>\<open>None\<close> (what \<^verbatim>\<open>dict.get\<close>
  returns for a missing key).\<close>

datatype pyval = Str string | PyNone


fun py_str :: "pyval \<Rightarrow> string" where
  "py_str (Str s) = s"
| "py_str PyNone = ''None''"

text \<open>\<^verbatim>\<open>x or d\<close> on a string \<open>x\<close>: the empty string is falsy.\<close>

definition or_else :: "string \<Rightarrow> string \<Rightarrow> string" where
  "or_else x d = (if x = [] then d else x)"

text \<open>
  A Python \<^verbatim>\<open>dict\<close> keeps insertion order: an association list. Assigning to a key
  that is present replaces the value in place, assigning to a new key appends.
\<close>

type_synonym info = "(string \<times> pyval) list"

fun dict_set :: "('k \<times> 'v) list \<Rightarrow> 'k \<Rightarrow> 'v \<Rightarrow> ('k \<times> 'v) list" where
  "dict_set [] k v = [(k, v)]"
| "dict_set ((k', v') # d) k v =
     (if k' = k then (k', v) # d else (k', v') # dict_set d k v)"

definition dict_get :: "('k \<times> 'v) list \<Rightarrow> 'k \<Rightarrow> 'v option" where
  "dict_get d k = map_of d k"

definition keys :: "('k \<times> 'v) list \<Rightarrow> 'k list" where
  "keys d = map fst d"

definition has_key :: "('k \<times> 'v) list \<Rightarrow> 'k \<Rightarrow> bool" where
  "has_key d k = (k \<in> set (keys d))"

text \<open>\<^verbatim>\<open>info.get(k)\<close>: the value, or \<^verbatim>\<open>None\<close> when the key is missing.\<close>

definition info_get :: "info \<Rightarrow> string \<Rightarrow> pyval" where
  "info_get d k = (case dict_get d k of None \<Rightarrow> PyNone | Some v \<Rightarrow> v)"

text \<open>\<^verbatim>\<open>sep.join(xs)\<close> and \<^verbatim>\<open>s.replace('+', '')\<close>.\<close>

fun join :: "string \<Rightarrow> string list \<Rightarrow> string" where
  "join sep [] = []"
| "join sep [x] = x"
| "join sep (x # y # ys) = x @ sep @ join sep (y # ys)"

definition remove_plus :: "string \<Rightarrow> string" where
  "remove_plus s = filter (\<lambda>c. c \<noteq> CHR ''+'') s"

text \<open>The two pictographs of the messages, as their UTF-8 bytes (U+274C and U+2705).\<close>

definition cross_mark :: string where
  "cross_mark = [CHR 0xE2, CHR 0x9D, CHR 0x8C]"

definition check_mark :: string where
  "check_mark = [CHR 0xE2, CHR 0x9C, CHR 0x85]"

section \<open>The libraries the program calls\<close>

text \<open>
  The category enumeration and the output formats of the phone-number library.
  \<^verbatim>\<open>NUMBER_TYPE_MAP\<close> (lines 31-37) names five of the categories.
\<close>

datatype PhoneNumberType =
    FIXED_LINE
  | MOBILE
  | FIXED_LINE_OR_MOBILE
  | TOLL_FREE
  | PREMIUM_RATE
  | SHARED_COST
  | VOIP
  | PERSONAL_NUMBER
  | PAGER
  | UAN
  | VOICEMAIL
  | UNKNOWN

datatype PhoneNumberFormat = E164 | INTERNATIONAL | NATIONAL | RFC3966

definition NUMBER_TYPE_MAP :: "(PhoneNumberType \<times> string) list" where
  "NUMBER_TYPE_MAP =
     [(FIXED_LINE, ''Fixed Line''),
      (MOBILE, ''Mobile''),
      (TOLL_FREE, ''Toll-Free''),
      (PREMIUM_RATE, ''Premium Rate''),
      (UNKNOWN, ''Unknown'')]"

text \<open>\<^verbatim>\<open>d.get(k, default)\<close>.\<close>

definition get_default :: "('k \<times> 'v) list \<Rightarrow> 'k \<Rightarrow> 'v \<Rightarrow> 'v" where
  "get_default d k dflt = (case dict_get d k of None \<Rightarrow> dflt | Some v \<Rightarrow> v)"

text \<open>
  The country facts the program reads from \<^verbatim>\<open>CountryInfo(code).info()\<close>: five keys of a
  dictionary, each of which may be missing (\<open>None\<close>: \<^verbatim>\<open>.get\<close> then returns \<^verbatim>\<open>None\<close>).
\<close>

record country_data =
  name :: "string option"
  capital :: "string option"
  currencies :: "string list option"
  region :: "string option"
  borders :: "string list option"

datatype 'f location = Location (latitude: 'f) (longitude: 'f)

text \<open>
  The collaborators, as one record of functions. \<open>'n\<close> is the library's parsed number,
  which the program never looks into; \<open>'f\<close> is Python's \<^verbatim>\<open>float\<close>, which the program only
  formats (\<^verbatim>\<open>f"{x:.4f}"\<close>, \<^verbatim>\<open>f"{x}"\<close>) and parses (\<^verbatim>\<open>float(s)\<close>, \<open>None\<close> for a
  \<^verbatim>\<open>ValueError\<close>). A call that the source wraps in a handler returns an exception or a
  value. \<open>local_time tz\<close> is
  \<^verbatim>\<open>datetime.now(pytz.timezone(tz)).strftime('%A, %Y-%m-%d, %H:%M:%S %Z%z')\<close>.
  The one-second sleep before geocoding has no counterpart here.
\<close>

record ('n, 'f) env =
  parse :: "string \<Rightarrow> exn + 'n"
  is_valid_number :: "'n \<Rightarrow> bool"
  format_number :: "'n \<Rightarrow> PhoneNumberFormat \<Rightarrow> string"
  description_for_number :: "'n \<Rightarrow> string \<Rightarrow> string"
  number_type :: "'n \<Rightarrow> PhoneNumberType"
  name_for_number :: "'n \<Rightarrow> string \<Rightarrow> string"
  time_zones_for_number :: "'n \<Rightarrow> string list"
  local_time :: "string \<Rightarrow> exn + string"
  region_code_for_number :: "'n \<Rightarrow> string option"
  CountryInfo :: "string \<Rightarrow> exn + country_data"
  geocode :: "string \<Rightarrow> exn + 'f location option"
  format_4f :: "'f \<Rightarrow> string"
  format_float :: "'f \<Rightarrow> string"
  py_float :: "string \<Rightarrow> 'f option"

section \<open>The console and the files written\<close>

datatype 'f artifact =
    QRImage string
  | FoliumMap 'f 'f string

datatype printed =
    Print string
  | Panel string string
  | Table "(string \<times> string) list"

record 'f world =
  console :: "printed list"
  saved :: "(string \<times> 'f artifact) list"

definition console_print :: "printed \<Rightarrow> 'f world \<Rightarrow> 'f world" where
  "console_print x w = w\<lparr>console := console w @ [x]\<rparr>"

definition save :: "string \<Rightarrow> 'f artifact \<Rightarrow> 'f world \<Rightarrow> 'f world" where
  "save filename a w = w\<lparr>saved := saved w @ [(filename, a)]\<rparr>"

section \<open>The analysis: \<^verbatim>\<open>get_coordinates\<close> and \<^verbatim>\<open>get_phone_info\<close>\<close>

text \<open>Lines 39-48. The function returns what it printed and its result.\<close>

definition get_coordinates ::
  "('n, 'f) env \<Rightarrow> string \<Rightarrow> printed list \<times> (exn + ('f \<times> 'f) option)" where
  "get_coordinates env location_name =
     (case geocode env location_name of
        Inl e \<Rightarrow>
          if kind e = GeocoderTimedOut \<or> kind e = GeocoderUnavailable
          then ([Print ''[bold red]Geocoding service is unavailable or timed out.[/bold red]''],
                Inr None)
          else ([], Inl e)
      | Inr None \<Rightarrow> ([], Inr None)
      | Inr (Some l) \<Rightarrow> ([], Inr (Some (latitude l, longitude l))))"

text \<open>Lines 63-71: the dictionary literal.\<close>

definition basic_information :: "('n, 'f) env \<Rightarrow> 'n \<Rightarrow> info" where
  "basic_information env n =
     (let location_str = description_for_number env n ''en'' in
      [(''E.164 Format'', Str (format_number env n E164)),
       (''International Format'', Str (format_number env n INTERNATIONAL)),
       (''National Format'', Str (or_else (format_number env n NATIONAL) ''N/A'')),
       (''Number Type'', Str (get_default NUMBER_TYPE_MAP (number_type env n) ''Other'')),
       (''Area Code Location'', Str (if location_str \<noteq> [] then location_str else ''N/A'')),
       (''Mobile Carrier'', Str (or_else (name_for_number env n ''en'') ''N/A''))])"

text \<open>Lines 73-81. Only \<^verbatim>\<open>UnknownTimeZoneError\<close> is handled; anything else propagates.\<close>

definition timezone_enrichment :: "('n, 'f) env \<Rightarrow> 'n \<Rightarrow> info \<Rightarrow> exn + info" where
  "timezone_enrichment env n info =
     (case time_zones_for_number env n of
        [] \<Rightarrow> Inr info
      | first_timezone # _ \<Rightarrow>
          (case local_time env first_timezone of
             Inr t \<Rightarrow> Inr (dict_set info ''Current Local Time'' (Str t))
           | Inl e \<Rightarrow>
               if kind e = UnknownTimeZoneError
               then Inr (dict_set info ''Current Local Time'' (Str ''Invalid timezone data.''))
               else Inl e))"

text \<open>
  Lines 83-94. \<^verbatim>\<open>except (KeyError, IndexError)\<close> also catches their subclasses; of the
  classes here, the timezone library's \<^verbatim>\<open>UnknownTimeZoneError\<close> is a \<^verbatim>\<open>KeyError\<close>.
  \<^verbatim>\<open>country_data.get('currencies')[0]\<close> raises \<^verbatim>\<open>IndexError\<close> on an empty list and
  \<^verbatim>\<open>TypeError\<close> when the key is missing (\<^verbatim>\<open>None[0]\<close>).
\<close>

definition is_lookup_error :: "exn_kind \<Rightarrow> bool" where
  "is_lookup_error k = (k = KeyError \<or> k = IndexError \<or> k = UnknownTimeZoneError)"

definition opt_str :: "string option \<Rightarrow> pyval" where
  "opt_str x = (case x of None \<Rightarrow> PyNone | Some s \<Rightarrow> Str s)"

definition could_not_retrieve :: "info \<Rightarrow> info" where
  "could_not_retrieve info = dict_set info ''Country Info'' (Str ''Could not retrieve.'')"

definition country_enrichment :: "('n, 'f) env \<Rightarrow> 'n \<Rightarrow> info \<Rightarrow> exn + info" where
  "country_enrichment env n info =
     (case region_code_for_number env n of
        None \<Rightarrow> Inr info
      | Some country_code \<Rightarrow>
          if country_code = [] then Inr info
          else
            (case CountryInfo env country_code of
               Inl e \<Rightarrow> if is_lookup_error (kind e) then Inr (could_not_retrieve info) else Inl e
             | Inr cd \<Rightarrow>
                 let info1 = dict_set info ''Country''
                               (Str (py_str (opt_str (name cd)) @ '' ('' @ country_code @ '')''));
                     info2 = dict_set info1 ''Capital City'' (opt_str (capital cd))
                 in
                 (case currencies cd of
                    None \<Rightarrow> Inl (Exn TypeError ([CHR 0x27] @ ''NoneType'' @ [CHR 0x27]
                                               @ '' object is not subscriptable''))
                  | Some [] \<Rightarrow> Inr (could_not_retrieve info2)
                  | Some (c # _) \<Rightarrow>
                      let info3 = dict_set info2 ''Currency'' (Str c);
                          info4 = dict_set info3 ''Continent / Region'' (opt_str (region cd));
                          info5 = dict_set info4 ''Bordering Countries''
                                    (Str (case borders cd of
                                            None \<Rightarrow> ''None''
                                          | Some [] \<Rightarrow> ''None''
                                          | Some (b # bs) \<Rightarrow> join '', '' (b # bs)))
                      in Inr info5)))"

text \<open>Lines 96-102.\<close>

definition geolocation_enrichment ::
  "('n, 'f) env \<Rightarrow> string \<Rightarrow> info \<Rightarrow> printed list \<times> (exn + info)" where
  "geolocation_enrichment env location_str info =
     (if location_str = [] then ([], Inr info)
      else
        (case get_coordinates env location_str of
           (out, Inl e) \<Rightarrow> (out, Inl e)
         | (out, Inr None) \<Rightarrow> (out, Inr info)
         | (out, Inr (Some (lat, lon))) \<Rightarrow>
             (out,
              Inr (dict_set
                    (dict_set
                      (dict_set info ''Latitude'' (Str (format_4f env lat)))
                      ''Longitude'' (Str (format_4f env lon)))
                    ''Google Maps Link''
                    (Str (''https://maps.google.com/maps?q='' @ format_float env lat
                          @ '','' @ format_float env lon))))))"

text \<open>Lines 104-105.\<close>

definition utility_links :: "string \<Rightarrow> info \<Rightarrow> info" where
  "utility_links e164_format info =
     dict_set info ''WhatsApp Link'' (Str (''https://wa.me/'' @ remove_plus e164_format))"

text \<open>Lines 109-112: the two outer handlers, which turn an exception into a message.\<close>

definition error_message :: "string \<Rightarrow> exn \<Rightarrow> string" where
  "error_message phone_number_str e =
     (if kind e = NumberParseException
      then cross_mark @ '' Error: Failed to parse '' @ [CHR 0x27] @ phone_number_str
           @ [CHR 0x27] @ ''. Please check the format.''
      else cross_mark @ '' An unexpected error occurred: '' @ str_exn e)"

definition invalid_message :: string where
  "invalid_message = cross_mark @ '' Error: Invalid phone number format.''"

text \<open>
  Lines 50-112. The result is what was printed on the way, and an error string (\<open>Inl\<close>)
  or the record (\<open>Inr\<close>).
\<close>

definition get_phone_info ::
  "('n, 'f) env \<Rightarrow> string \<Rightarrow> printed list \<times> (string + info)" where
  "get_phone_info env phone_number_str =
     (case parse env phone_number_str of
        Inl e \<Rightarrow> ([], Inl (error_message phone_number_str e))
      | Inr n \<Rightarrow>
          if \<not> is_valid_number env n then ([], Inl invalid_message)
          else
            (case timezone_enrichment env n (basic_information env n) of
               Inl e \<Rightarrow> ([], Inl (error_message phone_number_str e))
             | Inr info1 \<Rightarrow>
                 (case country_enrichment env n info1 of
                    Inl e \<Rightarrow> ([], Inl (error_message phone_number_str e))
                  | Inr info2 \<Rightarrow>
                      (case geolocation_enrichment env (description_for_number env n ''en'') info2 of
                         (out, Inl e) \<Rightarrow> (out, Inl (error_message phone_number_str e))
                       | (out, Inr info3) \<Rightarrow>
                           (out, Inr (utility_links (format_number env n E164) info3))))))"

section \<open>The artifact generators and the presentation layer\<close>


text \<open>
  Lines 129-153. \<^verbatim>\<open>float(v)\<close> raises \<^verbatim>\<open>TypeError\<close> on \<^verbatim>\<open>None\<close> and \<^verbatim>\<open>ValueError\<close> on a
  string that is no number; nothing in the program catches either.
\<close>

definition to_float :: "('n, 'f) env \<Rightarrow> pyval \<Rightarrow> exn_kind + 'f" where
  "to_float env v =
     (case v of
        PyNone \<Rightarrow> Inl TypeError
      | Str s \<Rightarrow> (case py_float env s of None \<Rightarrow> Inl ValueError | Some x \<Rightarrow> Inr x))"

definition create_location_map :: "('n, 'f) env \<Rightarrow> info \<Rightarrow> 'f world \<Rightarrow> exn_kind + 'f world" where
  "create_location_map env info w =
     (if \<not> has_key info ''Latitude'' \<or> \<not> has_key info ''Longitude'' then Inr w
      else
        (case to_float env (info_get info ''Latitude'') of
           Inl k \<Rightarrow> Inl k
         | Inr lat \<Rightarrow>
             (case to_float env (info_get info ''Longitude'') of
                Inl k \<Rightarrow> Inl k
              | Inr lon \<Rightarrow>
                  let popup_html = ''<b>'' @ py_str (info_get info ''Area Code Location'')
                                   @ ''</b><br><i>Estimated location for ''
                                   @ py_str (info_get info ''International Format'') @ ''</i>'';
                      html_filename = ''map_'' @ py_str (info_get info ''E.164 Format'') @ ''.html''
                  in Inr (console_print
                            (Print (check_mark @ '' [bold blue]Interactive Map saved as ''
                                    @ [CHR 0x27] @ html_filename @ [CHR 0x27] @ ''[/bold blue]''))
                            (save html_filename (FoliumMap lat lon popup_html) w)))))"



section \<open>Names used in the statements\<close>

text \<open>The keys each part of \<^verbatim>\<open>get_phone_info\<close> assigns, in the order of the source.\<close>

definition basic_keys :: "string list" where
  "basic_keys =
     [''E.164 Format'', ''International Format'', ''National Format'', ''Number Type'',
      ''Area Code Location'', ''Mobile Carrier'']"

definition country_keys :: "string list" where
  "country_keys =
     [''Country'', ''Capital City'', ''Currency'', ''Continent / Region'',
      ''Bordering Countries'', ''Country Info'']"

definition geo_keys :: "string list" where
  "geo_keys = [''Latitude'', ''Longitude'', ''Google Maps Link'']"

text \<open>The E.164 form: a plus sign, then decimal digits only.\<close>

definition is_digit :: "char \<Rightarrow> bool" where
  "is_digit c = (c \<in> set ''0123456789'')"

definition is_e164 :: "string \<Rightarrow> bool" where
  "is_e164 e =
     (case e of [] \<Rightarrow> False | c # ds \<Rightarrow> c = CHR ''+'' \<and> ds \<noteq> [] \<and> list_all is_digit ds)"

section \<open>Stub collaborators for concrete runs\<close>

text \<open>
  A fixed set of collaborators in the manner of a test double: one number that parses and is
  valid, one that parses and is not, and everything else a parse failure. A float is
  written here as a decimal (digits, number of fraction digits); its three conversions
  are tables.
\<close>

definition us_data :: country_data where
  "us_data =
     \<lparr>name = Some ''United States'', capital = Some ''Washington D.C.'',
      currencies = Some [''USD'', ''USN'', ''USS''], region = Some ''Americas'',
      borders = Some [''CAN'', ''MEX'']\<rparr>"

definition sf_env :: "(nat \<times> nat, int \<times> nat) env" where
  "sf_env =
     \<lparr>parse = (\<lambda>s. if s = ''+14155552671'' then Inr (1, 4155552671)
                   else if s = ''+1415'' then Inr (1, 415)
                   else Inl (Exn NumberParseException
                              ''The string supplied did not seem to be a phone number.'')),
      is_valid_number = (\<lambda>n. n = (1, 4155552671)),
      format_number = (\<lambda>n f. case f of
                                E164 \<Rightarrow> ''+14155552671''
                              | INTERNATIONAL \<Rightarrow> ''+1 415-555-2671''
                              | NATIONAL \<Rightarrow> ''(415) 555-2671''
                              | RFC3966 \<Rightarrow> ''tel:+1-415-555-2671''),
      description_for_number = (\<lambda>n lang. ''San Francisco, CA''),
      number_type = (\<lambda>n. FIXED_LINE_OR_MOBILE),
      name_for_number = (\<lambda>n lang. []),
      time_zones_for_number = (\<lambda>n. [''America/Los_Angeles'']),
      local_time = (\<lambda>tz. if tz = ''America/Los_Angeles''
                        then Inr ''Tuesday, 2026-11-03, 09:00:00 PST-0800''
                        else Inl (Exn UnknownTimeZoneError tz)),
      region_code_for_number = (\<lambda>n. Some ''US''),
      CountryInfo = (\<lambda>c. if c = ''US'' then Inr us_data else Inl (Exn KeyError c)),
      geocode = (\<lambda>q. if q = ''San Francisco, CA''
                     then Inr (Some (Location (377792808, 7) (- 1224192363, 7)))
                     else Inr None),
      format_4f = (\<lambda>x. if x = (377792808, 7) then ''37.7793'' else ''-122.4192''),
      format_float = (\<lambda>x. if x = (377792808, 7) then ''37.7792808'' else ''-122.4192363''),
      py_float = (\<lambda>s. if s = ''37.7793'' then Some (377793, 4)
                      else if s = ''-122.4192'' then Some (- 1224192, 4) else None)\<rparr>"

definition no_match_env :: "(nat \<times> nat, int \<times> nat) env" where
  "no_match_env = sf_env\<lparr>geocode := (\<lambda>q. Inr None)\<rparr>"

definition unknown_tz_env :: "(nat \<times> nat, int \<times> nat) env" where
  "unknown_tz_env =
     sf_env\<lparr>time_zones_for_number := (\<lambda>n. [''Etc/Unknown'', ''America/Los_Angeles''])\<rparr>"

definition no_currencies_env :: "(nat \<times> nat, int \<times> nat) env" where
  "no_currencies_env = sf_env\<lparr>CountryInfo := (\<lambda>c. Inr (us_data\<lparr>currencies := None\<rparr>))\<rparr>"

definition sf_basic :: info where
  "sf_basic =
     [(''E.164 Format'', Str ''+14155552671''),
      (''International Format'', Str ''+1 415-555-2671''),
      (''National Format'', Str ''(415) 555-2671''),
      (''Number Type'', Str ''Other''),
      (''Area Code Location'', Str ''San Francisco, CA''),
      (''Mobile Carrier'', Str ''N/A'')]"

definition sf_country :: info where
  "sf_country =
     [(''Country'', Str ''United States (US)''),
      (''Capital City'', Str ''Washington D.C.''),
      (''Currency'', Str ''USD''),
      (''Continent / Region'', Str ''Americas''),
      (''Bordering Countries'', Str ''CAN, MEX'')]"

definition sf_geo :: info where
  "sf_geo =
     [(''Latitude'', Str ''37.7793''),
      (''Longitude'', Str ''-122.4192''),
      (''Google Maps Link'', Str ''https://maps.google.com/maps?q=37.7792808,-122.4192363'')]"

definition sf_local_time :: info where
  "sf_local_time = [(''Current Local Time'', Str ''Tuesday, 2026-11-03, 09:00:00 PST-0800'')]"

definition sf_whatsapp :: info where
  "sf_whatsapp = [(''WhatsApp Link'', Str ''https://wa.me/14155552671'')]"

definition sf_record :: info where
  "sf_record = sf_basic @ sf_local_time @ sf_country @ sf_geo @ sf_whatsapp"

definition sf_record_no_geo :: info where
  "sf_record_no_geo = sf_basic @ sf_local_time @ sf_country @ sf_whatsapp"

definition sf_record_unknown_tz :: info where
  "sf_record_unknown_tz =
     sf_basic @ [(''Current Local Time'', Str ''Invalid timezone data.'')]
     @ sf_country @ sf_geo @ sf_whatsapp"

definition empty_world :: "(int \<times> nat) world" where
  "empty_world = \<lparr>console = [], saved = []\<rparr>"

section \<open>Dictionaries\<close>

lemma dict_get_dict_set:
  "dict_get (dict_set d k v) k' = (if k' = k then Some v else dict_get d k')"
  by (induction d) (auto simp: dict_get_def)

lemma keys_dict_set:
  "keys (dict_set d k v) = (if k \<in> set (keys d) then keys d else keys d @ [k])"
  by (induction d) (force simp: keys_def)+

lemma has_key_dict_get: "has_key d k = (dict_get d k \<noteq> None)"
  by (simp add: has_key_def keys_def dict_get_def map_of_eq_None_iff)

lemma has_key_dict_set: "has_key (dict_set d k v) k' = (k' = k \<or> has_key d k')"
  by (auto simp: has_key_def keys_dict_set)

lemma info_get_dict_set:
  "info_get (dict_set d k v) k' = (if k' = k then v else info_get d k')"
  by (simp add: info_get_def dict_get_dict_set)

lemma has_key_cong: "dict_get a k = dict_get b k \<Longrightarrow> has_key a k = has_key b k"
  by (simp add: has_key_dict_get)

lemma info_get_cong: "dict_get a k = dict_get b k \<Longrightarrow> info_get a k = info_get b k"
  by (simp add: info_get_def)

section \<open>What each part of the analysis leaves alone\<close>

lemma keys_basic_information: "keys (basic_information env n) = basic_keys"
  by (simp add: basic_information_def keys_def basic_keys_def Let_def)

lemma basic_information_other:
  "k \<notin> set basic_keys \<Longrightarrow> dict_get (basic_information env n) k = None"
proof -
  assume "k \<notin> set basic_keys"
  then have "\<not> has_key (basic_information env n) k"
    by (simp add: has_key_def keys_basic_information)
  then show ?thesis
    by (simp add: has_key_dict_get)
qed

lemma timezone_enrichment_cases:
  assumes "timezone_enrichment env n info = Inr info'"
  shows "(time_zones_for_number env n = [] \<and> info' = info) \<or>
         (\<exists>tz rest.
            time_zones_for_number env n = tz # rest \<and>
            info' = dict_set info ''Current Local Time''
                      (Str (case local_time env tz of
                              Inr t \<Rightarrow> t | Inl e \<Rightarrow> ''Invalid timezone data.'')))"
  using assms
  by (auto simp: timezone_enrichment_def split: list.splits sum.splits if_splits)

lemma timezone_enrichment_frame:
  assumes "timezone_enrichment env n info = Inr info'" and "k \<noteq> ''Current Local Time''"
  shows "dict_get info' k = dict_get info k"
  using timezone_enrichment_cases [OF assms(1)] assms(2)
  by (auto simp: dict_get_dict_set)

lemma country_enrichment_frame:
  assumes "country_enrichment env n info = Inr info'" and "k \<notin> set country_keys"
  shows "dict_get info' k = dict_get info k"
  using assms
  by (auto simp: country_enrichment_def could_not_retrieve_def country_keys_def Let_def
        dict_get_dict_set
      split: option.splits sum.splits if_splits list.splits)

lemma geolocation_enrichment_cases:
  assumes "geolocation_enrichment env location_str info = (out, Inr info')"
  shows "((location_str = [] \<or> snd (get_coordinates env location_str) = Inr None)
          \<and> info' = info) \<or>
         (\<exists>lat lon.
            location_str \<noteq> [] \<and>
            snd (get_coordinates env location_str) = Inr (Some (lat, lon)) \<and>
            info' = dict_set
                      (dict_set
                        (dict_set info ''Latitude'' (Str (format_4f env lat)))
                        ''Longitude'' (Str (format_4f env lon)))
                      ''Google Maps Link''
                      (Str (''https://maps.google.com/maps?q='' @ format_float env lat
                            @ '','' @ format_float env lon)))"
  using assms
  by (auto simp: geolocation_enrichment_def
      split: if_splits prod.splits sum.splits option.splits)

lemma geolocation_enrichment_frame:
  assumes "geolocation_enrichment env location_str info = (out, Inr info')"
    and "k \<notin> set geo_keys"
  shows "dict_get info' k = dict_get info k"
  using geolocation_enrichment_cases [OF assms(1)] assms(2)
  by (auto simp: dict_get_dict_set geo_keys_def)

lemma utility_links_frame:
  "k \<noteq> ''WhatsApp Link'' \<Longrightarrow> dict_get (utility_links e info) k = dict_get info k"
  by (simp add: utility_links_def dict_get_dict_set)

lemma get_phone_info_Inr:
  assumes "get_phone_info env s = (out, Inr info)"
  obtains n info1 info2 info3 where
    "parse env s = Inr n" and "is_valid_number env n"
    and "timezone_enrichment env n (basic_information env n) = Inr info1"
    and "country_enrichment env n info1 = Inr info2"
    and "geolocation_enrichment env (description_for_number env n ''en'') info2
         = (out, Inr info3)"
    and "info = utility_links (format_number env n E164) info3"
  using assms
  by (auto simp: get_phone_info_def split: sum.splits if_splits prod.splits)

text \<open>An entry of the dictionary literal reaches the result unchanged.\<close>

lemma basic_entry_kept:
  assumes "get_phone_info env s = (out, Inr info)" and "parse env s = Inr n"
    and "k \<in> set basic_keys"
  shows "dict_get info k = dict_get (basic_information env n) k"
proof -
  from assms(1) obtain n' info1 info2 info3 where
    p: "parse env s = Inr n'"
    and tz: "timezone_enrichment env n' (basic_information env n') = Inr info1"
    and co: "country_enrichment env n' info1 = Inr info2"
    and ge: "geolocation_enrichment env (description_for_number env n' ''en'') info2
             = (out, Inr info3)"
    and li: "info = utility_links (format_number env n' E164) info3"
    by (rule get_phone_info_Inr)
  from p assms(2) have n: "n' = n" by simp
  from assms(3) have k: "k \<noteq> ''WhatsApp Link''" "k \<notin> set geo_keys" "k \<notin> set country_keys"
    "k \<noteq> ''Current Local Time''"
    by (auto simp: basic_keys_def geo_keys_def country_keys_def)
  have "dict_get info k = dict_get info3 k"
    using li k(1) by (simp add: utility_links_frame)
  also have "\<dots> = dict_get info2 k"
    using ge k(2) by (rule geolocation_enrichment_frame)
  also have "\<dots> = dict_get info1 k"
    using co k(3) by (rule country_enrichment_frame)
  also have "\<dots> = dict_get (basic_information env n') k"
    using tz k(4) by (rule timezone_enrichment_frame)
  finally show ?thesis using n by simp
qed

text \<open>Before the last assignment, the record has no key outside the three groups.\<close>

lemma before_links_other:
  assumes "timezone_enrichment env n (basic_information env n) = Inr info1"
    and "country_enrichment env n info1 = Inr info2"
    and "k \<notin> set basic_keys" and "k \<noteq> ''Current Local Time''" and "k \<notin> set country_keys"
  shows "dict_get info2 k = None"
proof -
  have "dict_get info2 k = dict_get info1 k"
    using assms(2,5) by (rule country_enrichment_frame)
  also have "\<dots> = dict_get (basic_information env n) k"
    using assms(1,4) by (rule timezone_enrichment_frame)
  also have "\<dots> = None"
    using assms(3) by (rule basic_information_other)
  finally show ?thesis .
qed


section \<open>The country group\<close>

text \<open>
  The two failures that the handler of lines 93-94 catches: the country lookup itself
  raising a \<^verbatim>\<open>KeyError\<close> or \<^verbatim>\<open>IndexError\<close>, and an empty list of currencies. The second
  one happens after "Country" and "Capital City" were assigned, and they stay.
\<close>

lemma country_lookup_error_is_caught:
  assumes "region_code_for_number env n = Some country_code" and "country_code \<noteq> []"
    and "CountryInfo env country_code = Inl e" and "is_lookup_error (kind e)"
  shows "country_enrichment env n info
           = Inr (dict_set info ''Country Info'' (Str ''Could not retrieve.''))"
  using assms by (simp add: country_enrichment_def could_not_retrieve_def)

lemma empty_currencies_is_caught:
  assumes "region_code_for_number env n = Some country_code" and "country_code \<noteq> []"
    and "CountryInfo env country_code = Inr cd" and "currencies cd = Some []"
  shows "country_enrichment env n info
           = Inr (dict_set
                   (dict_set
                     (dict_set info ''Country''
                       (Str (py_str (opt_str (name cd)) @ '' ('' @ country_code @ '')'')))
                     ''Capital City'' (opt_str (capital cd)))
                   ''Country Info'' (Str ''Could not retrieve.''))"
  using assms by (simp add: country_enrichment_def could_not_retrieve_def Let_def)

text \<open>
  Two analyses that differ only in what the country lookup gives, and both return a
  record, agree on every entry outside the country group.
\<close>

lemma country_group_is_framed:
  assumes "get_phone_info env s = (out, Inr info)"
    and "get_phone_info (env\<lparr>CountryInfo := c\<rparr>) s = (out', Inr info')"
    and "k \<notin> set country_keys"
  shows "dict_get info' k = dict_get info k"
proof -
  let ?env' = "env\<lparr>CountryInfo := c\<rparr>"
  from assms(1) obtain n info1 info2 info3 where
    p: "parse env s = Inr n"
    and tz: "timezone_enrichment env n (basic_information env n) = Inr info1"
    and co: "country_enrichment env n info1 = Inr info2"
    and ge: "geolocation_enrichment env (description_for_number env n ''en'') info2
             = (out, Inr info3)"
    and li: "info = utility_links (format_number env n E164) info3"
    by (rule get_phone_info_Inr)
  from assms(2) obtain n' info1' info2' info3' where
    p': "parse ?env' s = Inr n'"
    and tz': "timezone_enrichment ?env' n' (basic_information ?env' n') = Inr info1'"
    and co': "country_enrichment ?env' n' info1' = Inr info2'"
    and ge': "geolocation_enrichment ?env' (description_for_number ?env' n' ''en'') info2'
              = (out', Inr info3')"
    and li': "info' = utility_links (format_number ?env' n' E164) info3'"
    by (rule get_phone_info_Inr)
  from p p' have n: "n' = n" by simp
  have "basic_information ?env' n = basic_information env n"
    by (simp add: basic_information_def)
  moreover have "timezone_enrichment ?env' n i = timezone_enrichment env n i" for i
    by (simp add: timezone_enrichment_def split: list.splits)
  ultimately have one: "info1' = info1"
    using tz tz' n by simp
  have two: "dict_get info2' k = dict_get info2 k"
    using country_enrichment_frame [OF co assms(3)] country_enrichment_frame [OF co' assms(3)]
    by (simp add: one)
  have coords: "get_coordinates ?env' l = get_coordinates env l" for l
    by (simp add: get_coordinates_def)
  from geolocation_enrichment_cases [OF ge] geolocation_enrichment_cases [OF ge'] two
  have three: "dict_get info3' k = dict_get info3 k"
    by (auto simp: n coords dict_get_dict_set)
  show ?thesis
    by (simp add: li li' n utility_links_def dict_get_dict_set three)
qed
section \<open>Concrete runs\<close>

lemmas analysis_defs =
  get_phone_info_def basic_information_def timezone_enrichment_def country_enrichment_def
  geolocation_enrichment_def get_coordinates_def utility_links_def error_message_def
  invalid_message_def could_not_retrieve_def is_lookup_error_def opt_str_def or_else_def
  get_default_def dict_get_def NUMBER_TYPE_MAP_def remove_plus_def

lemmas stub_defs =
  sf_env_def us_data_def no_match_env_def unknown_tz_env_def no_currencies_env_def

lemmas record_defs =
  sf_record_def sf_record_no_geo_def sf_record_unknown_tz_def sf_basic_def sf_local_time_def
  sf_country_def sf_geo_def sf_whatsapp_def

lemma sf_parse: "parse sf_env ''+14155552671'' = Inr (1, 4155552671)"
  by (simp add: sf_env_def)

lemma sf_run: "get_phone_info sf_env ''+14155552671'' = ([], Inr sf_record)"
  by (simp add: analysis_defs stub_defs record_defs)

lemma no_match_parse: "parse no_match_env ''+14155552671'' = Inr (1, 4155552671)"
  by (simp add: stub_defs)

lemma no_match_run: "get_phone_info no_match_env ''+14155552671'' = ([], Inr sf_record_no_geo)"
  by (simp add: analysis_defs stub_defs record_defs)



section \<open>The record\<close>

text \<open>
  C8. Whenever the analysis returns a record, the record has the seven keys
  "E.164 Format", "International Format", "National Format", "Number Type",
  "Area Code Location", "Mobile Carrier" and "WhatsApp Link", whatever the timezone,
  country and geocoding parts did, and "WhatsApp Link" is the last key in insertion order.
\<close>

theorem record_has_seven_keys:
  assumes "get_phone_info env s = (out, Inr info)"
  shows "has_key info ''E.164 Format'' \<and> has_key info ''International Format''
       \<and> has_key info ''National Format'' \<and> has_key info ''Number Type''
       \<and> has_key info ''Area Code Location'' \<and> has_key info ''Mobile Carrier''
       \<and> has_key info ''WhatsApp Link'' \<and> last (keys info) = ''WhatsApp Link''"
proof -
  from assms obtain n info1 info2 info3 where
    p: "parse env s = Inr n"
    and tz: "timezone_enrichment env n (basic_information env n) = Inr info1"
    and co: "country_enrichment env n info1 = Inr info2"
    and ge: "geolocation_enrichment env (description_for_number env n ''en'') info2
             = (out, Inr info3)"
    and li: "info = utility_links (format_number env n E164) info3"
    by (rule get_phone_info_Inr)
  have basic: "has_key info k" if "k \<in> set basic_keys" for k
  proof -
    have "dict_get info k = dict_get (basic_information env n) k"
      using assms p that by (rule basic_entry_kept)
    then have "has_key info k = has_key (basic_information env n) k"
      by (rule has_key_cong)
    then show ?thesis
      using that by (simp add: has_key_def keys_basic_information)
  qed
  have "dict_get info2 ''WhatsApp Link'' = None"
    using tz co by (rule before_links_other) (simp_all add: basic_keys_def country_keys_def)
  moreover have "dict_get info3 ''WhatsApp Link'' = dict_get info2 ''WhatsApp Link''"
    using ge by (rule geolocation_enrichment_frame) (simp add: geo_keys_def)
  ultimately have "\<not> has_key info3 ''WhatsApp Link''"
    by (simp add: has_key_dict_get)
  then have "keys info = keys info3 @ [''WhatsApp Link'']"
    by (simp add: li utility_links_def keys_dict_set has_key_def)
  then have "has_key info ''WhatsApp Link''" and "last (keys info) = ''WhatsApp Link''"
    by (simp_all add: has_key_def)
  moreover have "has_key info ''E.164 Format''" "has_key info ''International Format''"
    "has_key info ''National Format''" "has_key info ''Number Type''"
    "has_key info ''Area Code Location''" "has_key info ''Mobile Carrier''"
    by (rule basic, simp add: basic_keys_def)+
  ultimately show ?thesis by simp
qed

theorem record_has_seven_keys_witness:
  "get_phone_info sf_env ''+14155552671'' = ([], Inr sf_record)
   \<and> has_key sf_record ''E.164 Format'' \<and> has_key sf_record ''Mobile Carrier''
   \<and> has_key sf_record ''WhatsApp Link'' \<and> last (keys sf_record) = ''WhatsApp Link''"
  using record_has_seven_keys [OF sf_run] sf_run by simp

text \<open>
  C9. In every record the analysis returns, the keys "Latitude", "Longitude" and
  "Google Maps Link" are all present or all absent.
\<close>

theorem geo_keys_all_or_none:
  assumes "get_phone_info env s = (out, Inr info)"
  shows "(has_key info ''Latitude'' \<and> has_key info ''Longitude''
          \<and> has_key info ''Google Maps Link'')
       \<or> (\<not> has_key info ''Latitude'' \<and> \<not> has_key info ''Longitude''
          \<and> \<not> has_key info ''Google Maps Link'')"
proof -
  from assms obtain n info1 info2 info3 where
    tz: "timezone_enrichment env n (basic_information env n) = Inr info1"
    and co: "country_enrichment env n info1 = Inr info2"
    and ge: "geolocation_enrichment env (description_for_number env n ''en'') info2
             = (out, Inr info3)"
    and li: "info = utility_links (format_number env n E164) info3"
    by (rule get_phone_info_Inr)
  have none: "\<not> has_key info2 k" if "k \<in> set geo_keys" for k
  proof -
    have "dict_get info2 k = None"
      using tz co
      by (rule before_links_other)
        (use that in \<open>auto simp: geo_keys_def basic_keys_def country_keys_def\<close>)
    then show ?thesis by (simp add: has_key_dict_get)
  qed
  have same: "has_key info k = has_key info3 k" if "k \<in> set geo_keys" for k
    using that by (auto simp: li utility_links_def has_key_dict_set geo_keys_def)
  from geolocation_enrichment_cases [OF ge] show ?thesis
  proof
    assume "(description_for_number env n ''en'' = []
        \<or> snd (get_coordinates env (description_for_number env n ''en'')) = Inr None)
        \<and> info3 = info2"
    then have "\<not> has_key info k" if "k \<in> set geo_keys" for k
      using that none same by simp
    then show ?thesis by (simp add: geo_keys_def)
  next
    assume "\<exists>lat lon.
        description_for_number env n ''en'' \<noteq> [] \<and>
        snd (get_coordinates env (description_for_number env n ''en'')) = Inr (Some (lat, lon)) \<and>
        info3 = dict_set
                  (dict_set
                    (dict_set info2 ''Latitude'' (Str (format_4f env lat)))
                    ''Longitude'' (Str (format_4f env lon)))
                  ''Google Maps Link''
                  (Str (''https://maps.google.com/maps?q='' @ format_float env lat
                        @ '','' @ format_float env lon))"
    then have "has_key info3 k" if "k \<in> set geo_keys" for k
      using that by (auto simp: has_key_dict_set geo_keys_def)
    then have "has_key info k" if "k \<in> set geo_keys" for k
      using that same by simp
    then show ?thesis by (simp add: geo_keys_def)
  qed
qed

theorem geo_keys_all_or_none_witness:
  "get_phone_info sf_env ''+14155552671'' = ([], Inr sf_record)
   \<and> has_key sf_record ''Latitude'' \<and> has_key sf_record ''Longitude''
   \<and> has_key sf_record ''Google Maps Link''
   \<and> get_phone_info no_match_env ''+14155552671'' = ([], Inr sf_record_no_geo)
   \<and> \<not> has_key sf_record_no_geo ''Latitude'' \<and> \<not> has_key sf_record_no_geo ''Longitude''
   \<and> \<not> has_key sf_record_no_geo ''Google Maps Link''"
  using geo_keys_all_or_none [OF sf_run] geo_keys_all_or_none [OF no_match_run]
    sf_run no_match_run
  by (simp add: has_key_def keys_def record_defs)

text \<open>
  C6. For every number on which the analysis returns a record, the value of "Number Type"
  is the display string that the static table \<open>NUMBER_TYPE_MAP\<close> gives for the library's
  category (fixed-line, mobile, toll-free, premium-rate, unknown), and "Other" for every
  category that the table does not hold.
\<close>

theorem number_type_lookup:
  assumes "parse env s = Inr n" and "get_phone_info env s = (out, Inr info)"
  shows "info_get info ''Number Type''
           = Str (get_default NUMBER_TYPE_MAP (number_type env n) ''Other'')
       \<and> info_get info ''Number Type''
           = Str (case number_type env n of
                    FIXED_LINE \<Rightarrow> ''Fixed Line''
                  | MOBILE \<Rightarrow> ''Mobile''
                  | TOLL_FREE \<Rightarrow> ''Toll-Free''
                  | PREMIUM_RATE \<Rightarrow> ''Premium Rate''
                  | UNKNOWN \<Rightarrow> ''Unknown''
                  | _ \<Rightarrow> ''Other'')
       \<and> (number_type env n \<notin> set (keys NUMBER_TYPE_MAP)
            \<longrightarrow> info_get info ''Number Type'' = Str ''Other'')"
proof -
  have "dict_get info ''Number Type'' = dict_get (basic_information env n) ''Number Type''"
    using assms(2,1) by (rule basic_entry_kept) (simp add: basic_keys_def)
  then have "info_get info ''Number Type''
      = info_get (basic_information env n) ''Number Type''"
    by (rule info_get_cong)
  then have looked_up: "info_get info ''Number Type''
      = Str (get_default NUMBER_TYPE_MAP (number_type env n) ''Other'')"
    by (simp add: basic_information_def info_get_def dict_get_def Let_def)
  have table: "get_default NUMBER_TYPE_MAP t ''Other''
      = (case t of
           FIXED_LINE \<Rightarrow> ''Fixed Line''
         | MOBILE \<Rightarrow> ''Mobile''
         | TOLL_FREE \<Rightarrow> ''Toll-Free''
         | PREMIUM_RATE \<Rightarrow> ''Premium Rate''
         | UNKNOWN \<Rightarrow> ''Unknown''
         | _ \<Rightarrow> ''Other'')" for t
    by (cases t) (simp_all add: get_default_def dict_get_def NUMBER_TYPE_MAP_def)
  have other: "get_default NUMBER_TYPE_MAP t ''Other'' = ''Other''"
    if "t \<notin> set (keys NUMBER_TYPE_MAP)" for t
    using that by (cases t) (simp_all add: get_default_def dict_get_def NUMBER_TYPE_MAP_def keys_def)
  from looked_up table other show ?thesis by simp
qed

theorem number_type_lookup_witness:
  "parse sf_env ''+14155552671'' = Inr (1, 4155552671)
   \<and> get_phone_info sf_env ''+14155552671'' = ([], Inr sf_record)
   \<and> number_type sf_env (1, 4155552671) = FIXED_LINE_OR_MOBILE
   \<and> FIXED_LINE_OR_MOBILE \<notin> set (keys NUMBER_TYPE_MAP)
   \<and> info_get sf_record ''Number Type'' = Str ''Other''"
proof -
  have t: "number_type sf_env (1, 4155552671) = FIXED_LINE_OR_MOBILE"
    by (simp add: sf_env_def)
  have absent: "FIXED_LINE_OR_MOBILE \<notin> set (keys NUMBER_TYPE_MAP)"
    by (simp add: NUMBER_TYPE_MAP_def keys_def)
  from number_type_lookup [OF sf_parse sf_run, THEN conjunct2, THEN conjunct2]
  have "info_get sf_record ''Number Type'' = Str ''Other''"
    using t absent by simp
  then show ?thesis
    using sf_parse sf_run t absent by simp
qed

text \<open>
  C7. For every number on which the analysis returns a record and whose E.164 form is
  \<open>e\<close> (a plus sign, then digits), the value of "WhatsApp Link" is "https://wa.me/"
  followed by \<open>e\<close> without its leading plus sign; for "+14155552671" it is
  "https://wa.me/14155552671".
\<close>

theorem whatsapp_link_value:
  assumes "parse env s = Inr n" and "get_phone_info env s = (out, Inr info)"
    and "is_e164 (format_number env n E164)"
  shows "info_get info ''WhatsApp Link''
           = Str (''https://wa.me/'' @ tl (format_number env n E164))"
proof -
  from assms(2) obtain n' info3 where
    p: "parse env s = Inr n'"
    and li: "info = utility_links (format_number env n' E164) info3"
    by (rule get_phone_info_Inr)
  from p assms(1) have n: "n' = n" by simp
  have digits: "filter (\<lambda>c. c \<noteq> CHR ''+'') ds = ds" if "list_all is_digit ds" for ds
    using that by (induction ds) (auto simp: is_digit_def)
  from assms(3) obtain ds where
    e: "format_number env n E164 = CHR ''+'' # ds" and ds: "list_all is_digit ds"
    by (auto simp: is_e164_def split: list.splits)
  have "remove_plus (format_number env n E164) = tl (format_number env n E164)"
    by (simp add: e remove_plus_def digits [OF ds])
  then show ?thesis
    by (simp add: li n utility_links_def info_get_dict_set)
qed

theorem whatsapp_link_value_witness:
  "parse sf_env ''+14155552671'' = Inr (1, 4155552671)
   \<and> get_phone_info sf_env ''+14155552671'' = ([], Inr sf_record)
   \<and> format_number sf_env (1, 4155552671) E164 = ''+14155552671''
   \<and> is_e164 ''+14155552671''
   \<and> info_get sf_record ''WhatsApp Link'' = Str ''https://wa.me/14155552671''"
proof -
  have e: "format_number sf_env (1, 4155552671) E164 = ''+14155552671''"
    by (simp add: sf_env_def)
  have f: "is_e164 ''+14155552671''"
    by (simp add: is_e164_def is_digit_def)
  from f have "is_e164 (format_number sf_env (1, 4155552671) E164)"
    by (simp only: e)
  from whatsapp_link_value [OF sf_parse sf_run this] show ?thesis
    using sf_parse sf_run e f by simp
qed



section \<open>Failures\<close>

text \<open>
  C3. For every valid number with a non-empty area description for which
  \<^verbatim>\<open>get_coordinates\<close> returns \<^verbatim>\<open>None\<close> (no match, or one of the two geocoder failures it
  catches): a record that the analysis returns has none of the keys "Latitude",
  "Longitude", "Google Maps Link"; it is what the timezone and country parts built, with
  the WhatsApp link added; and \<^verbatim>\<open>create_location_map\<close> on it returns without writing.
\<close>

theorem no_geocoder_match:
  assumes "parse env s = Inr n" and "is_valid_number env n"
    and "description_for_number env n ''en'' \<noteq> []"
    and "snd (get_coordinates env (description_for_number env n ''en'')) = Inr None"
    and "get_phone_info env s = (out, Inr info)"
  shows "\<not> has_key info ''Latitude'' \<and> \<not> has_key info ''Longitude''
       \<and> \<not> has_key info ''Google Maps Link''
       \<and> (\<exists>info1 info2.
            timezone_enrichment env n (basic_information env n) = Inr info1
            \<and> country_enrichment env n info1 = Inr info2
            \<and> info = utility_links (format_number env n E164) info2)
       \<and> create_location_map env info w = Inr w"
proof -
  from assms(5) obtain n' info1 info2 info3 where
    p: "parse env s = Inr n'"
    and tz: "timezone_enrichment env n' (basic_information env n') = Inr info1"
    and co: "country_enrichment env n' info1 = Inr info2"
    and ge: "geolocation_enrichment env (description_for_number env n' ''en'') info2
             = (out, Inr info3)"
    and li: "info = utility_links (format_number env n' E164) info3"
    by (rule get_phone_info_Inr)
  from p assms(1) have n: "n' = n" by simp
  from geolocation_enrichment_cases [OF ge] assms(4) n have same: "info3 = info2"
    by auto
  have none: "\<not> has_key info k" if "k \<in> set geo_keys" for k
  proof -
    have "dict_get info k = dict_get info2 k"
      using that by (auto simp: li same utility_links_frame geo_keys_def)
    also have "\<dots> = None"
      using tz co
      by (rule before_links_other)
        (use that in \<open>auto simp: geo_keys_def basic_keys_def country_keys_def\<close>)
    finally show ?thesis by (simp add: has_key_dict_get)
  qed
  have lat: "\<not> has_key info ''Latitude''" and lon: "\<not> has_key info ''Longitude''"
    and link: "\<not> has_key info ''Google Maps Link''"
    by (rule none, simp add: geo_keys_def)+
  from lat have "create_location_map env info w = Inr w"
    by (simp add: create_location_map_def)
  moreover from tz co li same n have "\<exists>info1 info2.
      timezone_enrichment env n (basic_information env n) = Inr info1
      \<and> country_enrichment env n info1 = Inr info2
      \<and> info = utility_links (format_number env n E164) info2"
    by auto
  ultimately show ?thesis
    using lat lon link by simp
qed

theorem no_geocoder_match_witness:
  "parse no_match_env ''+14155552671'' = Inr (1, 4155552671)
   \<and> is_valid_number no_match_env (1, 4155552671)
   \<and> description_for_number no_match_env (1, 4155552671) ''en'' = ''San Francisco, CA''
   \<and> get_coordinates no_match_env ''San Francisco, CA'' = ([], Inr None)
   \<and> get_phone_info no_match_env ''+14155552671'' = ([], Inr sf_record_no_geo)
   \<and> \<not> has_key sf_record_no_geo ''Latitude'' \<and> \<not> has_key sf_record_no_geo ''Longitude''
   \<and> \<not> has_key sf_record_no_geo ''Google Maps Link''
   \<and> create_location_map no_match_env sf_record_no_geo empty_world = Inr empty_world"
proof -
  have v: "is_valid_number no_match_env (1, 4155552671)"
    by (simp add: stub_defs)
  have d: "description_for_number no_match_env (1, 4155552671) ''en'' = ''San Francisco, CA''"
    by (simp add: stub_defs)
  have g: "get_coordinates no_match_env ''San Francisco, CA'' = ([], Inr None)"
    by (simp add: get_coordinates_def stub_defs)
  have d': "description_for_number no_match_env (1, 4155552671) ''en'' \<noteq> []"
    by (simp add: stub_defs)
  have g': "snd (get_coordinates no_match_env
                  (description_for_number no_match_env (1, 4155552671) ''en'')) = Inr None"
    by (simp add: get_coordinates_def stub_defs)
  from no_geocoder_match [OF no_match_parse v d' g' no_match_run, of empty_world]
  show ?thesis
    using no_match_parse v d g no_match_run by simp
qed



text \<open>
  C1, at the input where the code departs from it. The number is valid, its region code is
  "US", and the country facts for "US" have no "currencies" key. The lookup
  \<^verbatim>\<open>country_data.get('currencies')[0]\<close> then raises \<^verbatim>\<open>TypeError\<close>, which the handler for
  \<^verbatim>\<open>(KeyError, IndexError)\<close> does not catch: the analysis returns an error string, not a
  record with the entry "Country Info".
\<close>

theorem missing_currencies_key_aborts_analysis:
  "get_phone_info no_currencies_env ''+14155552671''
     = ([], Inl (cross_mark @ '' An unexpected error occurred: '' @ [CHR 0x27] @ ''NoneType''
                 @ [CHR 0x27] @ '' object is not subscriptable''))"
  by (simp add: analysis_defs stub_defs)

section \<open>The artifact generators\<close>




section \<open>Where the coordinates go\<close>

text \<open>
  When the record has "Latitude", the geocoder gave a pair; "Latitude" and "Longitude" hold
  its \<^verbatim>\<open>.4f\<close> renderings, the map link holds the plain renderings, and
  \<^verbatim>\<open>create_location_map\<close> centres the map on what \<^verbatim>\<open>float\<close> reads back from the two
  \<^verbatim>\<open>.4f\<close> strings. What the three conversions compute is Python's and is not modelled.
\<close>

lemma coordinates_data_flow:
  assumes "get_phone_info env s = (out, Inr info)" and "has_key info ''Latitude''"
  shows "\<exists>n lat lon.
           parse env s = Inr n
         \<and> snd (get_coordinates env (description_for_number env n ''en'')) = Inr (Some (lat, lon))
         \<and> info_get info ''Latitude'' = Str (format_4f env lat)
         \<and> info_get info ''Longitude'' = Str (format_4f env lon)
         \<and> info_get info ''Google Maps Link''
             = Str (''https://maps.google.com/maps?q='' @ format_float env lat
                    @ '','' @ format_float env lon)
         \<and> (\<forall>x y. py_float env (format_4f env lat) = Some x
                  \<and> py_float env (format_4f env lon) = Some y \<longrightarrow>
                (\<exists>popup_html w'.
                   create_location_map env info w = Inr w'
                 \<and> saved w' = saved w @ [(''map_'' @ format_number env n E164 @ ''.html'',
                                           FoliumMap x y popup_html)]))"
proof -
  from assms(1) obtain n info1 info2 info3 where
    p: "parse env s = Inr n"
    and tz: "timezone_enrichment env n (basic_information env n) = Inr info1"
    and co: "country_enrichment env n info1 = Inr info2"
    and ge: "geolocation_enrichment env (description_for_number env n ''en'') info2
             = (out, Inr info3)"
    and li: "info = utility_links (format_number env n E164) info3"
    by (rule get_phone_info_Inr)
  have "dict_get info2 ''Latitude'' = None"
    using tz co by (rule before_links_other) (simp_all add: basic_keys_def country_keys_def)
  then have "\<not> has_key info2 ''Latitude''"
    by (simp add: has_key_dict_get)
  moreover from assms(2) have "has_key info3 ''Latitude''"
    by (simp add: li utility_links_def has_key_dict_set)
  ultimately have "info3 \<noteq> info2" by auto
  with geolocation_enrichment_cases [OF ge] obtain lat lon where
    c: "snd (get_coordinates env (description_for_number env n ''en'')) = Inr (Some (lat, lon))"
    and i3: "info3 = dict_set
                      (dict_set
                        (dict_set info2 ''Latitude'' (Str (format_4f env lat)))
                        ''Longitude'' (Str (format_4f env lon)))
                      ''Google Maps Link''
                      (Str (''https://maps.google.com/maps?q='' @ format_float env lat
                            @ '','' @ format_float env lon))"
    by auto
  have la: "info_get info ''Latitude'' = Str (format_4f env lat)"
    and lo: "info_get info ''Longitude'' = Str (format_4f env lon)"
    and gm: "info_get info ''Google Maps Link''
               = Str (''https://maps.google.com/maps?q='' @ format_float env lat
                      @ '','' @ format_float env lon)"
    by (simp_all add: li i3 utility_links_def info_get_dict_set)
  have keys: "has_key info ''Latitude''" "has_key info ''Longitude''"
    by (simp_all add: li i3 utility_links_def has_key_dict_set)
  have "dict_get info ''E.164 Format'' = dict_get (basic_information env n) ''E.164 Format''"
    using assms(1) p by (rule basic_entry_kept) (simp add: basic_keys_def)
  then have e: "info_get info ''E.164 Format'' = Str (format_number env n E164)"
    by (simp add: info_get_def basic_information_def dict_get_def Let_def)
  have "\<exists>popup_html w'.
          create_location_map env info w = Inr w'
        \<and> saved w' = saved w @ [(''map_'' @ format_number env n E164 @ ''.html'',
                                  FoliumMap x y popup_html)]"
    if "py_float env (format_4f env lat) = Some x \<and> py_float env (format_4f env lon) = Some y"
    for x y
    using that keys
    by (simp add: create_location_map_def to_float_def la lo e Let_def console_print_def save_def)
  with p c la lo gm show ?thesis by blast
qed


end
